theory Spec2Isabelle
  imports Main "HOL-Library.Word"
begin

section \<open>lmdb++.h: the error model and the environment procedures\<close>

text \<open>
  A shallow embedding of \<^verbatim>\<open>src/lmdb++.h\<close>. A C++ exception is a value of a sum
  type: a procedure that returns \<^verbatim>\<open>void\<close> or throws has the result type
  \<open>error + unit\<close>, with \<open>Inl\<close> for the thrown object. The storage engine is reached
  through \<^verbatim>\<open><lmdb.h>\<close>, which is not part of the repository, so everything that
  header declares is a parameter of the model.
\<close>

subsection \<open>What the header of the engine declares\<close>

text \<open>
  \<^verbatim>\<open>MDB_env*\<close> is an address; the engine alone knows what it points to.
  \<^verbatim>\<open>unsigned int\<close> and \<^verbatim>\<open>MDB_dbi\<close> are 32-bit words, \<^verbatim>\<open>std::size_t\<close> is a 64-bit
  word, and \<^verbatim>\<open>lmdb::mode\<close> (line 22, an alias of the header's \<^verbatim>\<open>mdb_mode_t\<close>) is taken
  as a 32-bit word. The wrappers only pass these values on.
\<close>

type_synonym MDB_env_ptr = nat
type_synonym mode = "32 word"

text \<open>
  The record \<open>'s lmdb\<close> holds the three status macros the source names, the function
  \<^verbatim>\<open>mdb_strerror\<close>, and the eight environment primitives the source calls. The type
  \<open>'s\<close> is the state of the engine (and of the file system behind it); a primitive
  takes the state and returns its status code with the new state.
  \<^verbatim>\<open>mdb_env_create\<close> receives the address of the caller's handle slot: it is given the
  slot's content and returns the content it leaves there. \<^verbatim>\<open>mdb_env_close\<close> returns
  \<^verbatim>\<open>void\<close>.
\<close>

record 's lmdb =
  MDB_SUCCESS :: int
  MDB_KEYEXIST :: int
  MDB_NOTFOUND :: int
  mdb_strerror :: "int \<Rightarrow> string"
  mdb_env_create :: "MDB_env_ptr \<Rightarrow> 's \<Rightarrow> int \<times> MDB_env_ptr \<times> 's"
  mdb_env_open :: "MDB_env_ptr \<Rightarrow> string \<Rightarrow> 32 word \<Rightarrow> mode \<Rightarrow> 's \<Rightarrow> int \<times> 's"
  mdb_env_close :: "MDB_env_ptr \<Rightarrow> 's \<Rightarrow> 's"
  mdb_env_set_flags :: "MDB_env_ptr \<Rightarrow> 32 word \<Rightarrow> int \<Rightarrow> 's \<Rightarrow> int \<times> 's"
  mdb_env_set_mapsize :: "MDB_env_ptr \<Rightarrow> 64 word \<Rightarrow> 's \<Rightarrow> int \<times> 's"
  mdb_env_set_maxreaders :: "MDB_env_ptr \<Rightarrow> 32 word \<Rightarrow> 's \<Rightarrow> int \<times> 's"
  mdb_env_set_maxdbs :: "MDB_env_ptr \<Rightarrow> 32 word \<Rightarrow> 's \<Rightarrow> int \<times> 's"
  mdb_env_sync :: "MDB_env_ptr \<Rightarrow> int \<Rightarrow> 's \<Rightarrow> int \<times> 's"

text \<open>
  The \<^verbatim>\<open>switch\<close> of \<^verbatim>\<open>lmdb::error::raise\<close> has \<^verbatim>\<open>MDB_KEYEXIST\<close> and
  \<^verbatim>\<open>MDB_NOTFOUND\<close> as case labels, and C++ rejects a \<^verbatim>\<open>switch\<close> with two equal
  labels: the source compiles only against a header whose two macros differ.
\<close>

definition distinct_labels :: "'s lmdb \<Rightarrow> bool" where
  "distinct_labels L \<longleftrightarrow> MDB_KEYEXIST L \<noteq> MDB_NOTFOUND L"

text \<open>
  Modelled from the spec: the values of the status macros of \<^verbatim>\<open><lmdb.h>\<close>, which the
  source includes and the repository does not hold. Section 3: zero denotes success; the
  nonzero values are the engine's error identifiers, two of which (key already exists,
  key not found) this layer distinguishes.
\<close>

definition status_codes :: "'s lmdb \<Rightarrow> bool" where
  "status_codes L \<longleftrightarrow>
     MDB_SUCCESS L = 0 \<and> MDB_KEYEXIST L \<noteq> 0 \<and> MDB_NOTFOUND L \<noteq> 0 \<and> distinct_labels L"

subsection \<open>The exception classes (lines 37 to 94)\<close>

text \<open>
  \<^verbatim>\<open>lmdb::error\<close> derives from \<^verbatim>\<open>std::runtime_error\<close> (which derives from
  \<^verbatim>\<open>std::exception\<close>); \<^verbatim>\<open>lmdb::key_exist_error\<close> and \<^verbatim>\<open>lmdb::not_found_error\<close>
  derive from \<^verbatim>\<open>lmdb::error\<close>. \<open>bases c\<close> lists \<open>c\<close> and the classes it derives from,
  nearest first.
\<close>

datatype cpp_class =
  Std_exception | Std_runtime_error | Error | Key_exist_error | Not_found_error

fun bases :: "cpp_class \<Rightarrow> cpp_class list" where
  "bases Std_exception = [Std_exception]"
| "bases Std_runtime_error = [Std_runtime_error, Std_exception]"
| "bases Error = [Error, Std_runtime_error, Std_exception]"
| "bases Key_exist_error = [Key_exist_error, Error, Std_runtime_error, Std_exception]"
| "bases Not_found_error = [Not_found_error, Error, Std_runtime_error, Std_exception]"

text \<open>
  An object of one of these classes: the class it was constructed as, the string held by
  its \<^verbatim>\<open>std::runtime_error\<close> part, and the member \<^verbatim>\<open>_code\<close>. There is no other member.
\<close>

record error =
  dyn_class :: cpp_class
  runtime_error_what :: string
  field_code :: int

text \<open>
  The constructor of line 50, which the two derived classes inherit
  (\<^verbatim>\<open>using error::error\<close>): it hands \<^verbatim>\<open>origin\<close> to \<^verbatim>\<open>std::runtime_error\<close> and stores
  \<^verbatim>\<open>rc\<close> in \<^verbatim>\<open>_code\<close>.
\<close>

definition construct :: "cpp_class \<Rightarrow> string \<Rightarrow> int \<Rightarrow> error" where
  "construct c orig rc = \<lparr>dyn_class = c, runtime_error_what = orig, field_code = rc\<rparr>"

definition code :: "error \<Rightarrow> int" where
  "code e = field_code e"

definition origin :: "error \<Rightarrow> string" where
  "origin e = runtime_error_what e"

text \<open>A handler \<^verbatim>\<open>catch (const H&)\<close> takes an object whose class is \<open>H\<close> or derives from it.\<close>

definition catches :: "cpp_class \<Rightarrow> error \<Rightarrow> bool" where
  "catches h e \<longleftrightarrow> h \<in> set (bases (dyn_class e))"

subsection \<open>The dispatch routine (lines 96 to 104)\<close>

text \<open>
  The three branches of the \<^verbatim>\<open>switch\<close>, in the order of the source. The routine is
  declared \<^verbatim>\<open>[[noreturn]] void\<close>; its result type here still has the case \<open>Inr ()\<close> of
  a normal return, so that never returning is a property to prove. The parameter \<^verbatim>\<open>origin\<close> is
  written \<open>orig\<close>, since \<open>origin\<close> is the accessor.
\<close>

definition raise :: "'s lmdb \<Rightarrow> string \<Rightarrow> int \<Rightarrow> error + unit" where
  "raise L orig rc =
     (if rc = MDB_KEYEXIST L then Inl (construct Key_exist_error orig rc)
      else if rc = MDB_NOTFOUND L then Inl (construct Not_found_error orig rc)
      else Inl (construct Error orig rc))"

subsection \<open>The message (lines 72 to 77)\<close>

text \<open>
  \<^verbatim>\<open>what()\<close> formats into \<^verbatim>\<open>static thread_local char buffer[1024]\<close>: one buffer for
  each thread, shared by every object whose message is asked for on that thread, and
  zero-initialised. The store \<open>buffers\<close> gives what each thread's buffer holds: a string
  (\<open>Text\<close>), or bytes that nothing determines (\<open>Indeterminate\<close>), which is what a failed
  \<^verbatim>\<open>snprintf\<close> leaves. The pointer \<^verbatim>\<open>what()\<close> returns is the address of the calling
  thread's buffer, and \<open>c_str\<close> reads what is at such an address.
\<close>

type_synonym thread_id = nat

datatype contents = Text string | Indeterminate

type_synonym buffers = "thread_id \<Rightarrow> contents"

datatype char_ptr = Buffer_of thread_id

definition zeroed :: buffers where
  "zeroed = (\<lambda>t. Text [])"

definition c_str :: "buffers \<Rightarrow> char_ptr \<Rightarrow> contents" where
  "c_str b p = (case p of Buffer_of t \<Rightarrow> b t)"

text \<open>
  \<^verbatim>\<open>std::snprintf(buffer, n, "%s: %s", a, b)\<close>, for a buffer of \<open>n > 0\<close> bytes (the source
  passes 1024). \<^verbatim>\<open>snprintf\<close> counts the characters of its output in an \<^verbatim>\<open>int\<close>, here of
  32 bits. When the output has at most \<^verbatim>\<open>INT_MAX\<close> characters, the buffer is left with the
  output cut to \<open>n - 1\<close> characters (the last byte is the terminator). When it has more,
  the call fails (a negative result, \<^verbatim>\<open>EOVERFLOW\<close>) and nothing says what the buffer
  holds. The value \<^verbatim>\<open>snprintf\<close> returns is dropped by the source, so \<^verbatim>\<open>what()\<close> returns
  the buffer in both cases.
\<close>

definition INT_MAX :: nat where
  "INT_MAX = 2147483647"

definition snprintf :: "nat \<Rightarrow> string \<Rightarrow> string \<Rightarrow> contents" where
  "snprintf n a b =
     (if length (a @ '': '' @ b) \<le> INT_MAX then Text (take (n - 1) (a @ '': '' @ b))
      else Indeterminate)"

definition what :: "'s lmdb \<Rightarrow> thread_id \<Rightarrow> error \<Rightarrow> buffers \<Rightarrow> char_ptr \<times> buffers" where
  "what L t e b =
     (Buffer_of t, b(t := snprintf 1024 (origin e) (mdb_strerror L (code e))))"

text \<open>
  What a caller reads through the pointer \<^verbatim>\<open>what()\<close> has just returned, as in
  \<^verbatim>\<open>std::string m = e.what();\<close>.
\<close>

definition message :: "'s lmdb \<Rightarrow> thread_id \<Rightarrow> error \<Rightarrow> buffers \<Rightarrow> contents" where
  "message L t e b = (case what L t e b of (p, b') \<Rightarrow> c_str b' p)"

text \<open>An origin of 1100 characters, longer than the buffer.\<close>

definition long_origin :: string where
  "long_origin = replicate 1100 (CHR ''x'')"

text \<open>
  A call of one of the three public member functions on an object, made on a thread:
  what it returns, the object after the call and the buffers after the call. \<^verbatim>\<open>code()\<close>
  and \<^verbatim>\<open>origin()\<close> are \<^verbatim>\<open>const\<close> and read one member; \<^verbatim>\<open>what()\<close> is \<^verbatim>\<open>const\<close> and
  writes the buffer.
\<close>

datatype member_call = Call_code | Call_origin | Call_what

datatype returned = Int_value int | String_value string | Pointer char_ptr

fun invoke :: "'s lmdb \<Rightarrow> thread_id \<times> member_call \<Rightarrow> error \<times> buffers \<Rightarrow> returned \<times> error \<times> buffers" where
  "invoke L (t, Call_code) (e, b) = (Int_value (code e), e, b)"
| "invoke L (t, Call_origin) (e, b) = (String_value (origin e), e, b)"
| "invoke L (t, Call_what) (e, b) = (case what L t e b of (p, b') \<Rightarrow> (Pointer p, e, b'))"

fun invoke_all :: "'s lmdb \<Rightarrow> (thread_id \<times> member_call) list \<Rightarrow> error \<times> buffers \<Rightarrow> returned list \<times> error \<times> buffers" where
  "invoke_all L [] (e, b) = ([], e, b)"
| "invoke_all L (c # cs) (e, b) =
     (case invoke L c (e, b) of (r, e', b') \<Rightarrow>
        (case invoke_all L cs (e', b') of (rs, e'', b'') \<Rightarrow> (r # rs, e'', b'')))"

text \<open>What an accessor call has to return on an object constructed from \<open>orig\<close> and \<open>rc\<close>.\<close>

fun construction_time :: "string \<Rightarrow> int \<Rightarrow> thread_id \<times> member_call \<Rightarrow> returned \<Rightarrow> bool" where
  "construction_time orig rc (t, Call_code) r = (r = Int_value rc)"
| "construction_time orig rc (t, Call_origin) r = (r = String_value orig)"
| "construction_time orig rc (t, Call_what) r = True"

subsection \<open>The procedural interface (lines 124 to 213)\<close>

text \<open>
  Each procedure takes the engine state after its arguments and returns its outcome with
  the state its one primitive call left. \<open>env_create\<close> is given the content of the slot
  \<^verbatim>\<open>*env\<close> and also returns the content after the call. The default arguments
  (\<^verbatim>\<open>onoff = true\<close>, \<^verbatim>\<open>force = true\<close>) belong to the call sites and are not modelled.
\<close>

definition env_create :: "'s lmdb \<Rightarrow> MDB_env_ptr \<Rightarrow> 's \<Rightarrow> (error + unit) \<times> MDB_env_ptr \<times> 's" where
  "env_create L slot s =
     (case mdb_env_create L slot s of (rc, slot', s') \<Rightarrow>
        (if rc \<noteq> MDB_SUCCESS L then raise L ''mdb_env_create'' rc else Inr (), slot', s'))"

definition env_open :: "'s lmdb \<Rightarrow> MDB_env_ptr \<Rightarrow> string \<Rightarrow> 32 word \<Rightarrow> mode \<Rightarrow> 's \<Rightarrow> (error + unit) \<times> 's" where
  "env_open L env path flags m s =
     (case mdb_env_open L env path flags m s of (rc, s') \<Rightarrow>
        (if rc \<noteq> MDB_SUCCESS L then raise L ''mdb_env_open'' rc else Inr (), s'))"

definition env_close :: "'s lmdb \<Rightarrow> MDB_env_ptr \<Rightarrow> 's \<Rightarrow> (error + unit) \<times> 's" where
  "env_close L env s = (Inr (), mdb_env_close L env s)"

definition env_set_flags :: "'s lmdb \<Rightarrow> MDB_env_ptr \<Rightarrow> 32 word \<Rightarrow> bool \<Rightarrow> 's \<Rightarrow> (error + unit) \<times> 's" where
  "env_set_flags L env flags onoff s =
     (case mdb_env_set_flags L env flags (if onoff then 1 else 0) s of (rc, s') \<Rightarrow>
        (if rc \<noteq> MDB_SUCCESS L then raise L ''mdb_env_set_flags'' rc else Inr (), s'))"

definition env_set_map_size :: "'s lmdb \<Rightarrow> MDB_env_ptr \<Rightarrow> 64 word \<Rightarrow> 's \<Rightarrow> (error + unit) \<times> 's" where
  "env_set_map_size L env sz s =
     (case mdb_env_set_mapsize L env sz s of (rc, s') \<Rightarrow>
        (if rc \<noteq> MDB_SUCCESS L then raise L ''mdb_env_set_mapsize'' rc else Inr (), s'))"

definition env_set_max_readers :: "'s lmdb \<Rightarrow> MDB_env_ptr \<Rightarrow> 32 word \<Rightarrow> 's \<Rightarrow> (error + unit) \<times> 's" where
  "env_set_max_readers L env count s =
     (case mdb_env_set_maxreaders L env count s of (rc, s') \<Rightarrow>
        (if rc \<noteq> MDB_SUCCESS L then raise L ''mdb_env_set_maxreaders'' rc else Inr (), s'))"

definition env_set_max_dbs :: "'s lmdb \<Rightarrow> MDB_env_ptr \<Rightarrow> 32 word \<Rightarrow> 's \<Rightarrow> (error + unit) \<times> 's" where
  "env_set_max_dbs L env count s =
     (case mdb_env_set_maxdbs L env count s of (rc, s') \<Rightarrow>
        (if rc \<noteq> MDB_SUCCESS L then raise L ''mdb_env_set_maxdbs'' rc else Inr (), s'))"

text \<open>\<^verbatim>\<open>force\<close> is a \<^verbatim>\<open>bool\<close> passed for an \<^verbatim>\<open>int\<close>: the conversion gives 1 or 0.\<close>

definition env_sync :: "'s lmdb \<Rightarrow> MDB_env_ptr \<Rightarrow> bool \<Rightarrow> 's \<Rightarrow> (error + unit) \<times> 's" where
  "env_sync L env force s =
     (case mdb_env_sync L env (if force then 1 else 0) s of (rc, s') \<Rightarrow>
        (if rc \<noteq> MDB_SUCCESS L then raise L ''mdb_env_sync'' rc else Inr (), s'))"

text \<open>
  The contract of a fallible procedure, in the words of section 4.2 of the spec: given what
  the one primitive call returned (\<open>prim\<close>, the status code and the engine state) and what
  the procedure returned (\<open>res\<close>), the procedure raised exactly when the status code is
  not \<^verbatim>\<open>MDB_SUCCESS\<close>; on success it returned normally; on failure what it threw is what
  the dispatch routine throws for the name of the operation and that status code; and the
  engine is left as that one call left it.
\<close>

definition checked_call :: "'s lmdb \<Rightarrow> string \<Rightarrow> int \<times> 's \<Rightarrow> (error + unit) \<times> 's \<Rightarrow> bool" where
  "checked_call L name prim res \<longleftrightarrow>
     (isl (fst res) \<longleftrightarrow> fst prim \<noteq> MDB_SUCCESS L) \<and>
     (fst prim = MDB_SUCCESS L \<longrightarrow> fst res = Inr ()) \<and>
     (fst prim \<noteq> MDB_SUCCESS L \<longrightarrow> fst res = raise L name (fst prim)) \<and>
     snd res = snd prim"

text \<open>
  Modelled from the spec: what the engine's \<^verbatim>\<open>mdb_env_create\<close> does to the slot it is
  given; the function is in the engine's library, not in the repository. Section 4.2, row
  "create environment": on success the slot is populated with a valid, unopened handle;
  on failure the slot is left unmodified. Section 3: the handle emerges unchanged, as the
  underlying primitive failed before assignment. What a valid, unopened handle is belongs
  to the engine: the predicate \<open>unopened\<close> on its state.
\<close>

definition create_contract :: "'s lmdb \<Rightarrow> ('s \<Rightarrow> MDB_env_ptr \<Rightarrow> bool) \<Rightarrow> bool" where
  "create_contract L unopened \<longleftrightarrow>
     (\<forall>slot s. case mdb_env_create L slot s of (rc, slot', s') \<Rightarrow>
        if rc = MDB_SUCCESS L then unopened s' slot' else slot' = slot)"

subsection \<open>A scripted engine\<close>

text \<open>
  An engine to run the procedures against: every primitive call counts itself and takes
  its status code from a script (success once the script is used up). Creation hands out
  a new address on success and leaves the slot alone on failure; \<open>fresh\<close> lists the handles
  created and not yet passed to open or close. Closing cannot return a status, so it leaves the
  one it met in \<open>close_status\<close>. The three macros have the values of LMDB's header.
\<close>

record scripted =
  script :: "int list"
  calls :: nat
  fresh :: "MDB_env_ptr list"
  close_status :: int

definition next_status :: "scripted \<Rightarrow> int \<times> scripted" where
  "next_status s =
     (case script s of
        [] \<Rightarrow> (0, s\<lparr>calls := Suc (calls s)\<rparr>)
      | rc # rest \<Rightarrow> (rc, s\<lparr>script := rest, calls := Suc (calls s)\<rparr>))"

definition scripted_strerror :: "int \<Rightarrow> string" where
  "scripted_strerror rc =
     (if rc = 0 then ''Successful return: 0''
      else if rc = - 30799 then ''MDB_KEYEXIST: Key/data pair already exists''
      else if rc = - 30798 then ''MDB_NOTFOUND: No matching key/data pair found''
      else ''Unknown error'')"

definition scripted_create :: "MDB_env_ptr \<Rightarrow> scripted \<Rightarrow> int \<times> MDB_env_ptr \<times> scripted" where
  "scripted_create slot s =
     (case next_status s of (rc, s') \<Rightarrow>
        if rc = 0 then (rc, calls s', s'\<lparr>fresh := calls s' # fresh s'\<rparr>) else (rc, slot, s'))"

definition scripted_open :: "MDB_env_ptr \<Rightarrow> scripted \<Rightarrow> int \<times> scripted" where
  "scripted_open env s =
     (case next_status s of (rc, s') \<Rightarrow> (rc, s'\<lparr>fresh := removeAll env (fresh s')\<rparr>))"

definition scripted_close :: "MDB_env_ptr \<Rightarrow> scripted \<Rightarrow> scripted" where
  "scripted_close env s =
     (case next_status s of (rc, s') \<Rightarrow>
        s'\<lparr>fresh := removeAll env (fresh s'), close_status := rc\<rparr>)"

definition scripted_lmdb :: "scripted lmdb" where
  "scripted_lmdb =
     \<lparr>MDB_SUCCESS = 0, MDB_KEYEXIST = - 30799, MDB_NOTFOUND = - 30798,
      mdb_strerror = scripted_strerror,
      mdb_env_create = scripted_create,
      mdb_env_open = (\<lambda>env path flags m. scripted_open env),
      mdb_env_close = scripted_close,
      mdb_env_set_flags = (\<lambda>env flags onoff. next_status),
      mdb_env_set_mapsize = (\<lambda>env sz. next_status),
      mdb_env_set_maxreaders = (\<lambda>env count. next_status),
      mdb_env_set_maxdbs = (\<lambda>env count. next_status),
      mdb_env_sync = (\<lambda>env force. next_status)\<rparr>"

definition start :: "int list \<Rightarrow> scripted" where
  "start rcs = \<lparr>script = rcs, calls = 0, fresh = [], close_status = 0\<rparr>"

definition is_fresh :: "scripted \<Rightarrow> MDB_env_ptr \<Rightarrow> bool" where
  "is_fresh s env \<longleftrightarrow> env \<in> set (fresh s)"

section \<open>The dispatch routine\<close>

lemma raise_carries:
  "raise L orig rc = Inl e \<Longrightarrow> e = construct (dyn_class e) orig rc"
  by (auto simp: raise_def construct_def split: if_splits)

lemma scripted_distinct_labels: "distinct_labels scripted_lmdb"
  by (simp add: distinct_labels_def scripted_lmdb_def)

lemma scripted_status_codes: "status_codes scripted_lmdb"
  by (simp add: status_codes_def distinct_labels_def scripted_lmdb_def)

text \<open>
  Claim C1. For every origin string and every status code, \<open>raise\<close> throws: an object of
  class \<^verbatim>\<open>key_exist_error\<close> when the code is \<^verbatim>\<open>MDB_KEYEXIST\<close>, of class
  \<^verbatim>\<open>not_found_error\<close> when it is \<^verbatim>\<open>MDB_NOTFOUND\<close>, and of the generic class
  \<^verbatim>\<open>error\<close> for every other code. The hypothesis is that the two case labels differ,
  without which the source does not compile.
\<close>

theorem raise_dispatch:
  assumes "distinct_labels L"
  shows "\<exists>e. raise L orig rc = Inl e \<and>
           (rc = MDB_KEYEXIST L \<longrightarrow> dyn_class e = Key_exist_error) \<and>
           (rc = MDB_NOTFOUND L \<longrightarrow> dyn_class e = Not_found_error) \<and>
           (rc \<noteq> MDB_KEYEXIST L \<and> rc \<noteq> MDB_NOTFOUND L \<longrightarrow> dyn_class e = Error)"
  using assms by (simp add: raise_def construct_def distinct_labels_def)

theorem raise_dispatch_witness:
  "distinct_labels scripted_lmdb \<and>
   (\<exists>e. raise scripted_lmdb ''mdb_put'' (- 30799) = Inl e \<and> dyn_class e = Key_exist_error) \<and>
   (\<exists>e. raise scripted_lmdb ''mdb_get'' (- 30798) = Inl e \<and> dyn_class e = Not_found_error) \<and>
   (\<exists>e. raise scripted_lmdb ''mdb_env_open'' 2 = Inl e \<and> dyn_class e = Error)"
proof -
  note d = scripted_distinct_labels
  show ?thesis
    using d raise_dispatch [OF d, of "''mdb_put''" "- 30799"]
      raise_dispatch [OF d, of "''mdb_get''" "- 30798"]
      raise_dispatch [OF d, of "''mdb_env_open''" 2]
    by (simp add: scripted_lmdb_def)
qed

text \<open>
  Claim C10. \<open>raise\<close> never returns, whatever the status code. Called with the code 0 of
  success, against a header where 0 is success and neither of the two distinguished
  codes, it takes the default branch and throws a generic error that carries the code 0
  and the origin it was given.
\<close>

theorem raise_never_returns:
  "isl (raise L orig rc) \<and>
   (status_codes L \<longrightarrow>
      (\<exists>e. raise L orig 0 = Inl e \<and> dyn_class e = Error \<and> code e = 0 \<and> origin e = orig))"
  by (simp add: raise_def status_codes_def construct_def code_def origin_def)

theorem raise_never_returns_witness:
  "status_codes scripted_lmdb \<and> isl (raise scripted_lmdb ''mdb_env_sync'' 0) \<and>
   (\<exists>e. raise scripted_lmdb ''mdb_env_sync'' 0 = Inl e \<and> dyn_class e = Error \<and> code e = 0
      \<and> origin e = ''mdb_env_sync'')"
  using raise_never_returns [of scripted_lmdb "''mdb_env_sync''" 0] scripted_status_codes
  by blast

text \<open>
  Claim C6. The object thrown for \<^verbatim>\<open>MDB_KEYEXIST\<close> is a \<^verbatim>\<open>key_exist_error\<close> and the one
  thrown for \<^verbatim>\<open>MDB_NOTFOUND\<close> is a \<^verbatim>\<open>not_found_error\<close>; each is caught by a handler for
  its own class and by a handler for the base class \<^verbatim>\<open>lmdb::error\<close>, and a handler for
  the base class catches whatever \<open>raise\<close> throws.
\<close>

theorem classification_refines:
  assumes "distinct_labels L"
  shows "(\<exists>e. raise L orig (MDB_KEYEXIST L) = Inl e \<and> dyn_class e = Key_exist_error
            \<and> catches Key_exist_error e \<and> catches Error e) \<and>
         (\<exists>e. raise L orig (MDB_NOTFOUND L) = Inl e \<and> dyn_class e = Not_found_error
            \<and> catches Not_found_error e \<and> catches Error e) \<and>
         (\<exists>e. raise L orig rc = Inl e \<and> catches Error e)"
  using assms by (simp add: raise_def construct_def distinct_labels_def catches_def)

theorem classification_refines_witness:
  "distinct_labels scripted_lmdb \<and>
   (\<exists>e. raise scripted_lmdb ''mdb_put'' (- 30799) = Inl e \<and> dyn_class e = Key_exist_error
      \<and> catches Error e) \<and>
   (\<exists>e. raise scripted_lmdb ''mdb_put'' (- 30798) = Inl e \<and> dyn_class e = Not_found_error
      \<and> catches Error e) \<and>
   (\<exists>e. raise scripted_lmdb ''mdb_put'' 28 = Inl e \<and> catches Error e)"
proof -
  note d = scripted_distinct_labels
  have k: "MDB_KEYEXIST scripted_lmdb = - 30799" and n: "MDB_NOTFOUND scripted_lmdb = - 30798"
    by (simp_all add: scripted_lmdb_def)
  from classification_refines [OF d, of "''mdb_put''" 28] d show ?thesis
    unfolding k n by blast
qed

section \<open>The accessors and the message\<close>

lemma invoke_const:
  "invoke L c (e, b) = (r, e', b') \<Longrightarrow> e' = e \<and> construction_time (origin e) (code e) c r"
proof -
  obtain t m where c: "c = (t, m)" by (cases c)
  assume "invoke L c (e, b) = (r, e', b')"
  with c show ?thesis by (cases m) (auto split: prod.splits)
qed

lemma invoke_all_const:
  "fst (snd (invoke_all L cs (e, b))) = e \<and>
   list_all2 (construction_time (origin e) (code e)) cs (fst (invoke_all L cs (e, b)))"
proof (induction cs arbitrary: b)
  case Nil
  show ?case by simp
next
  case (Cons c cs)
  obtain r e1 b1 where step: "invoke L c (e, b) = (r, e1, b1)"
    by (cases "invoke L c (e, b)")
  from invoke_const [OF step] have e1: "e1 = e"
    and r: "construction_time (origin e) (code e) c r" by simp_all
  from Cons.IH [of b1] step e1 r show ?case
    by (cases "invoke_all L cs (e, b1)") simp
qed

lemma raise_code_origin:
  assumes "raise L orig rc = Inl e"
  shows "code e = rc" and "origin e = orig"
proof -
  from raise_carries [OF assms] obtain c where "e = construct c orig rc" ..
  then show "code e = rc" and "origin e = orig"
    by (simp_all add: construct_def code_def origin_def)
qed

text \<open>
  Claim C4. For every origin string and every status code (the nonzero ones among them),
  the object \<open>raise\<close> throws has \<^verbatim>\<open>code()\<close> equal to the code passed in and
  \<^verbatim>\<open>origin()\<close> equal to the name passed in. The accessors are pure: in any sequence of
  calls of \<^verbatim>\<open>code()\<close>, \<^verbatim>\<open>origin()\<close> and \<^verbatim>\<open>what()\<close> on the object, on any threads and
  from any state of the buffers, every \<^verbatim>\<open>code()\<close> returns that code, every
  \<^verbatim>\<open>origin()\<close> returns that name, and the object is the same afterwards.
\<close>

theorem accessors_pure:
  assumes "raise L orig rc = Inl e"
  shows "code e = rc \<and> origin e = orig \<and>
         (\<forall>cs b. case invoke_all L cs (e, b) of (rs, e', b') \<Rightarrow>
            e' = e \<and> list_all2 (construction_time orig rc) cs rs)"
proof -
  note c = raise_code_origin(1) [OF assms] and o = raise_code_origin(2) [OF assms]
  have "e' = e \<and> list_all2 (construction_time orig rc) cs rs"
    if "invoke_all L cs (e, b) = (rs, e', b')" for cs b rs e' b'
    using invoke_all_const [of L cs e b] that c o by simp
  with c o show ?thesis by (simp split: prod.splits)
qed

theorem accessors_pure_witness:
  "raise scripted_lmdb ''mdb_env_open'' 13 = Inl (construct Error ''mdb_env_open'' 13) \<and>
   code (construct Error ''mdb_env_open'' 13) = 13 \<and>
   origin (construct Error ''mdb_env_open'' 13) = ''mdb_env_open'' \<and>
   (case invoke_all scripted_lmdb [(0, Call_origin), (0, Call_what), (1, Call_code), (0, Call_origin)]
           (construct Error ''mdb_env_open'' 13, zeroed)
    of (rs, e', b') \<Rightarrow>
      e' = construct Error ''mdb_env_open'' 13 \<and>
      list_all2 (construction_time ''mdb_env_open'' 13)
        [(0, Call_origin), (0, Call_what), (1, Call_code), (0, Call_origin)] rs)"
proof -
  have h: "raise scripted_lmdb ''mdb_env_open'' 13 = Inl (construct Error ''mdb_env_open'' 13)"
    by (simp add: raise_def scripted_lmdb_def)
  note c = accessors_pure [OF h, THEN conjunct1]
  note o = accessors_pure [OF h, THEN conjunct2, THEN conjunct1]
  note a = accessors_pure [OF h, THEN conjunct2, THEN conjunct2, THEN spec, THEN spec,
      of "[(0, Call_origin), (0, Call_what), (1, Call_code), (0, Call_origin)]" zeroed]
  from h c o a show ?thesis by (intro conjI)
qed

lemma message_within_INT_MAX:
  "length (origin e) + 2 + length (mdb_strerror L (code e)) \<le> INT_MAX \<Longrightarrow>
     message L t e b = Text (take 1023 (origin e @ '': '' @ mdb_strerror L (code e)))"
  by (simp add: message_def what_def c_str_def snprintf_def)

text \<open>
  Claim C5, as stated, fails where the formatted text does not fit the buffer of 1024
  bytes. An error raised with an origin of 1100 characters and the code 5 has a message of
  1023 characters, not the 1115 characters of the origin, the separator and the engine's
  text for 5.
\<close>

theorem message_counterexample:
  "message scripted_lmdb 0 (projl (raise scripted_lmdb long_origin 5)) zeroed
     \<noteq> Text (long_origin @ '': '' @ mdb_strerror scripted_lmdb 5)"
proof -
  have r: "projl (raise scripted_lmdb long_origin 5) = construct Error long_origin 5"
    by (simp add: raise_def scripted_lmdb_def)
  have o: "origin (construct Error long_origin 5) = long_origin"
    and c: "code (construct Error long_origin 5) = 5"
    by (simp_all add: origin_def code_def construct_def)
  have l: "length (long_origin @ '': '' @ mdb_strerror scripted_lmdb 5) = 1115"
    by (simp add: long_origin_def scripted_lmdb_def scripted_strerror_def)
  then have "length long_origin + 2 + length (mdb_strerror scripted_lmdb 5) \<le> INT_MAX"
    by (simp add: INT_MAX_def)
  with o c have "message scripted_lmdb 0 (construct Error long_origin 5) zeroed
      = Text (take 1023 (long_origin @ '': '' @ mdb_strerror scripted_lmdb 5))"
    using message_within_INT_MAX [of "construct Error long_origin 5" scripted_lmdb 0 zeroed]
    by simp
  moreover have "take 1023 (long_origin @ '': '' @ mdb_strerror scripted_lmdb 5)
      \<noteq> long_origin @ '': '' @ mdb_strerror scripted_lmdb 5"
  proof
    assume "take 1023 (long_origin @ '': '' @ mdb_strerror scripted_lmdb 5)
      = long_origin @ '': '' @ mdb_strerror scripted_lmdb 5"
    then have "length (take 1023 (long_origin @ '': '' @ mdb_strerror scripted_lmdb 5)) = 1115"
      using l by simp
    then show False using l by simp
  qed
  ultimately show ?thesis unfolding r by simp
qed

text \<open>
  Claim C5, amended. For a raised error whose formatted text (the origin string, the
  separator \<^verbatim>\<open>": "\<close> and the engine's text for the code) has at most \<^verbatim>\<open>INT_MAX\<close>
  characters, the message read when \<^verbatim>\<open>what()\<close> returns is the first 1023 characters of
  that text; it is the whole text when the origin and the engine's text have at most 1021
  characters together. The object thrown holds the origin and the code and nothing else:
  the text is formatted when the message is queried, with the engine's \<^verbatim>\<open>mdb_strerror\<close>
  of that moment.
\<close>

theorem what_formats_on_query:
  assumes "raise L orig rc = Inl e"
  shows "e = construct (dyn_class e) orig rc \<and>
         (length orig + 2 + length (mdb_strerror L rc) \<le> INT_MAX \<longrightarrow>
            message L t e b = Text (take 1023 (orig @ '': '' @ mdb_strerror L rc))) \<and>
         (length orig + length (mdb_strerror L rc) \<le> 1021 \<longrightarrow>
            message L t e b = Text (orig @ '': '' @ mdb_strerror L rc))"
proof -
  note c = raise_code_origin(1) [OF assms] and o = raise_code_origin(2) [OF assms]
  have m: "message L t e b = Text (take 1023 (orig @ '': '' @ mdb_strerror L rc))"
    if "length orig + 2 + length (mdb_strerror L rc) \<le> INT_MAX"
    using message_within_INT_MAX [of e L t b] that c o by simp
  have "message L t e b = Text (orig @ '': '' @ mdb_strerror L rc)"
    if s: "length orig + length (mdb_strerror L rc) \<le> 1021"
  proof -
    from s have "length orig + 2 + length (mdb_strerror L rc) \<le> INT_MAX"
      by (simp add: INT_MAX_def)
    from m [OF this] s show ?thesis by simp
  qed
  with m raise_carries [OF assms] show ?thesis by blast
qed

theorem what_formats_on_query_witness:
  "raise scripted_lmdb ''mdb_env_open'' (- 30798)
     = Inl (construct Not_found_error ''mdb_env_open'' (- 30798)) \<and>
   length ''mdb_env_open'' + 2 + length (mdb_strerror scripted_lmdb (- 30798)) \<le> INT_MAX \<and>
   length ''mdb_env_open'' + length (mdb_strerror scripted_lmdb (- 30798)) \<le> 1021 \<and>
   message scripted_lmdb 3 (construct Not_found_error ''mdb_env_open'' (- 30798)) zeroed
     = Text (take 1023 (''mdb_env_open'' @ '': '' @ mdb_strerror scripted_lmdb (- 30798))) \<and>
   message scripted_lmdb 3 (construct Not_found_error ''mdb_env_open'' (- 30798)) zeroed
     = Text ''mdb_env_open: MDB_NOTFOUND: No matching key/data pair found''"
proof -
  have h: "raise scripted_lmdb ''mdb_env_open'' (- 30798)
             = Inl (construct Not_found_error ''mdb_env_open'' (- 30798))"
    by (simp add: raise_def scripted_lmdb_def)
  have t: "mdb_strerror scripted_lmdb (- 30798) = ''MDB_NOTFOUND: No matching key/data pair found''"
    by (simp add: scripted_lmdb_def scripted_strerror_def)
  have i: "length ''mdb_env_open'' + 2 + length (mdb_strerror scripted_lmdb (- 30798)) \<le> INT_MAX"
    unfolding t by (simp add: INT_MAX_def)
  have l: "length ''mdb_env_open'' + length (mdb_strerror scripted_lmdb (- 30798)) \<le> 1021"
    unfolding t by simp
  note n = what_formats_on_query [OF h, of 3 zeroed, THEN conjunct2, THEN conjunct1, THEN mp, OF i]
  note m = what_formats_on_query [OF h, of 3 zeroed, THEN conjunct2, THEN conjunct2, THEN mp, OF l]
  from h i l n m [unfolded t] show ?thesis by simp
qed

text \<open>
  Claim C9, as stated, fails on one thread. On thread 0 the message of a
  \<^verbatim>\<open>key_exist_error\<close> is queried, then the message of another error: the string at the
  pointer the first query returned is no longer the first error's message.
\<close>

theorem shared_buffer_counterexample:
  "c_str (snd (what scripted_lmdb 0 (construct Error ''mdb_env_sync'' 5)
                 (snd (what scripted_lmdb 0 (construct Key_exist_error ''mdb_put'' (- 30799)) zeroed))))
         (fst (what scripted_lmdb 0 (construct Key_exist_error ''mdb_put'' (- 30799)) zeroed))
   \<noteq> message scripted_lmdb 0 (construct Key_exist_error ''mdb_put'' (- 30799)) zeroed"
  by (simp add: message_def what_def c_str_def snprintf_def INT_MAX_def scripted_lmdb_def
      scripted_strerror_def origin_def code_def construct_def)

text \<open>
  Claim C9, amended. The message is formatted into a buffer that every thread has for
  itself and that all error objects queried on that thread share. A query on one thread
  changes no other thread's buffer: the string a query returned on thread \<open>ta\<close> is still
  that error's message after a query for another error on a different thread \<open>tb\<close>, that
  second query returns its own error's message, and the two queries leave the same buffers
  in either order. On one thread, the next query overwrites the string the previous one
  returned: through the earlier pointer one then reads the later error's message.
\<close>

theorem buffer_per_thread:
  "(ta \<noteq> tb \<longrightarrow>
      c_str (snd (what L tb eb (snd (what L ta ea b)))) (fst (what L ta ea b)) = message L ta ea b \<and>
      c_str (snd (what L tb eb (snd (what L ta ea b)))) (fst (what L tb eb (snd (what L ta ea b))))
        = message L tb eb b \<and>
      snd (what L tb eb (snd (what L ta ea b))) = snd (what L ta ea (snd (what L tb eb b)))) \<and>
   (\<forall>t'. t' \<noteq> ta \<longrightarrow> snd (what L ta ea b) t' = b t') \<and>
   c_str (snd (what L ta eb (snd (what L ta ea b)))) (fst (what L ta ea b)) = message L ta eb b"
  by (auto simp: message_def what_def c_str_def)

theorem buffer_per_thread_witness:
  "(0::nat) \<noteq> 1 \<and>
   c_str (snd (what scripted_lmdb 1 (construct Error ''mdb_env_sync'' 5)
                 (snd (what scripted_lmdb 0 (construct Key_exist_error ''mdb_put'' (- 30799)) zeroed))))
         (fst (what scripted_lmdb 0 (construct Key_exist_error ''mdb_put'' (- 30799)) zeroed))
     = Text ''mdb_put: MDB_KEYEXIST: Key/data pair already exists'' \<and>
   snd (what scripted_lmdb 0 (construct Key_exist_error ''mdb_put'' (- 30799)) zeroed) 1 = zeroed 1"
proof -
  have m: "message scripted_lmdb 0 (construct Key_exist_error ''mdb_put'' (- 30799)) zeroed
             = Text ''mdb_put: MDB_KEYEXIST: Key/data pair already exists''"
    by (simp add: message_def what_def c_str_def snprintf_def INT_MAX_def scripted_lmdb_def
        scripted_strerror_def origin_def code_def construct_def)
  have ne: "(0::nat) \<noteq> 1" by simp
  note T = buffer_per_thread [where ta = 0 and tb = 1 and L = scripted_lmdb
      and eb = "construct Error ''mdb_env_sync'' 5"
      and ea = "construct Key_exist_error ''mdb_put'' (- 30799)" and b = zeroed]
  note A = T [THEN conjunct1, THEN mp, OF ne, THEN conjunct1, unfolded m]
  note D = T [THEN conjunct2, THEN conjunct1, THEN spec, of 1]
  from ne A D show ?thesis by simp
qed

section \<open>The procedures\<close>

lemma checked_callI:
  "res = (if rc \<noteq> MDB_SUCCESS L then raise L name rc else Inr (), s') \<Longrightarrow>
     checked_call L name (rc, s') res"
  by (simp add: checked_call_def raise_def)

lemma env_create_checked:
  "mdb_env_create L slot s = (rc, slot', s') \<Longrightarrow>
     \<exists>r. env_create L slot s = (r, slot', s') \<and> checked_call L ''mdb_env_create'' (rc, s') (r, s')"
  by (simp add: env_create_def checked_callI)

lemma env_open_checked:
  "checked_call L ''mdb_env_open'' (mdb_env_open L env path flags m s) (env_open L env path flags m s)"
  by (cases "mdb_env_open L env path flags m s") (simp add: env_open_def checked_callI)

lemma env_set_flags_checked:
  "checked_call L ''mdb_env_set_flags'' (mdb_env_set_flags L env flags (if onoff then 1 else 0) s)
     (env_set_flags L env flags onoff s)"
  by (cases "mdb_env_set_flags L env flags (if onoff then 1 else 0) s")
    (simp add: env_set_flags_def checked_callI)

lemma env_set_map_size_checked:
  "checked_call L ''mdb_env_set_mapsize'' (mdb_env_set_mapsize L env sz s) (env_set_map_size L env sz s)"
  by (cases "mdb_env_set_mapsize L env sz s") (simp add: env_set_map_size_def checked_callI)

lemma env_set_max_readers_checked:
  "checked_call L ''mdb_env_set_maxreaders'' (mdb_env_set_maxreaders L env n s)
     (env_set_max_readers L env n s)"
  by (cases "mdb_env_set_maxreaders L env n s") (simp add: env_set_max_readers_def checked_callI)

lemma env_set_max_dbs_checked:
  "checked_call L ''mdb_env_set_maxdbs'' (mdb_env_set_maxdbs L env n s) (env_set_max_dbs L env n s)"
  by (cases "mdb_env_set_maxdbs L env n s") (simp add: env_set_max_dbs_def checked_callI)

lemma env_sync_checked:
  "checked_call L ''mdb_env_sync'' (mdb_env_sync L env (if force then 1 else 0) s)
     (env_sync L env force s)"
  by (cases "mdb_env_sync L env (if force then 1 else 0) s") (simp add: env_sync_def checked_callI)

lemma checked_call_origin:
  "checked_call L name prim res \<Longrightarrow> fst res = Inl e \<Longrightarrow> origin e = name \<and> code e = fst prim"
  by (auto simp: checked_call_def raise_def construct_def origin_def code_def split: if_splits)

lemmas scripted_defs =
  scripted_lmdb_def scripted_create_def scripted_open_def scripted_close_def
  next_status_def start_def

lemma scripted_create_contract: "create_contract scripted_lmdb is_fresh"
  by (simp add: create_contract_def scripted_lmdb_def scripted_create_def next_status_def
      is_fresh_def split: list.splits)

text \<open>
  Claim C2. Each of the seven fallible procedures makes one call of its primitive, with the
  arguments it was given, and meets \<open>checked_call\<close> for it: it raises if and only if the
  status code the call returned is not \<^verbatim>\<open>MDB_SUCCESS\<close>; on \<^verbatim>\<open>MDB_SUCCESS\<close> it returns
  normally; when it raises, what it throws is what the dispatch routine throws for the
  name of the primitive and that status code; and the engine (and, for \<open>env_create\<close>, the
  slot) is as that one call left it: no retry, no recovery, no suppression.
\<close>

theorem wrappers_raise_iff_failure:
  "(case mdb_env_create L slot s of (rc, slot', s') \<Rightarrow>
      case env_create L slot s of (r, slot'', s'') \<Rightarrow>
        checked_call L ''mdb_env_create'' (rc, s') (r, s'') \<and> slot'' = slot') \<and>
   checked_call L ''mdb_env_open'' (mdb_env_open L env path flags m s)
     (env_open L env path flags m s) \<and>
   checked_call L ''mdb_env_set_flags'' (mdb_env_set_flags L env flags (if onoff then 1 else 0) s)
     (env_set_flags L env flags onoff s) \<and>
   checked_call L ''mdb_env_set_mapsize'' (mdb_env_set_mapsize L env sz s)
     (env_set_map_size L env sz s) \<and>
   checked_call L ''mdb_env_set_maxreaders'' (mdb_env_set_maxreaders L env n s)
     (env_set_max_readers L env n s) \<and>
   checked_call L ''mdb_env_set_maxdbs'' (mdb_env_set_maxdbs L env n s)
     (env_set_max_dbs L env n s) \<and>
   checked_call L ''mdb_env_sync'' (mdb_env_sync L env (if force then 1 else 0) s)
     (env_sync L env force s)"
proof -
  have "case mdb_env_create L slot s of (rc, slot', s') \<Rightarrow>
      case env_create L slot s of (r, slot'', s'') \<Rightarrow>
        checked_call L ''mdb_env_create'' (rc, s') (r, s'') \<and> slot'' = slot'"
    using env_create_checked [of L slot s] by (auto split: prod.splits)
  then show ?thesis
    by (intro conjI env_open_checked env_set_flags_checked env_set_map_size_checked
        env_set_max_readers_checked env_set_max_dbs_checked env_sync_checked)
qed

theorem wrappers_raise_iff_failure_witness:
  "fst (mdb_env_open scripted_lmdb 1 ''/db'' 0 420 (start [13])) \<noteq> MDB_SUCCESS scripted_lmdb \<and>
   isl (fst (env_open scripted_lmdb 1 ''/db'' 0 420 (start [13]))) \<and>
   fst (env_open scripted_lmdb 1 ''/db'' 0 420 (start [13]))
     = raise scripted_lmdb ''mdb_env_open'' 13 \<and>
   calls (snd (env_open scripted_lmdb 1 ''/db'' 0 420 (start [13]))) = 1 \<and>
   fst (mdb_env_sync scripted_lmdb 1 (if True then 1 else 0) (start [])) = MDB_SUCCESS scripted_lmdb \<and>
   fst (env_sync scripted_lmdb 1 True (start [])) = Inr () \<and>
   calls (snd (env_sync scripted_lmdb 1 True (start []))) = 1 \<and>
   fst (mdb_env_create scripted_lmdb 7 (start [13])) \<noteq> MDB_SUCCESS scripted_lmdb \<and>
   env_create scripted_lmdb 7 (start [13])
     = (raise scripted_lmdb ''mdb_env_create'' 13, 7,
        \<lparr>script = [], calls = 1, fresh = [], close_status = 0\<rparr>)"
proof -
  note T = wrappers_raise_iff_failure [where L = scripted_lmdb and env = 1 and path = "''/db''"
      and flags = 0 and m = 420 and force = True and slot = 7]
  note a = T [where s = "start [13]", THEN conjunct2, THEN conjunct1, unfolded checked_call_def]
  note b = T [where s = "start []", THEN conjunct2, THEN conjunct2, THEN conjunct2,
      THEN conjunct2, THEN conjunct2, THEN conjunct2, unfolded checked_call_def]
  note c = T [where s = "start [13]", THEN conjunct1, unfolded checked_call_def]
  have p: "mdb_env_open scripted_lmdb 1 ''/db'' 0 420 (start [13])
             = (13, \<lparr>script = [], calls = 1, fresh = [], close_status = 0\<rparr>)"
    by (simp add: scripted_defs)
  have q: "mdb_env_sync scripted_lmdb 1 (if True then 1 else 0) (start [])
             = (0, \<lparr>script = [], calls = 1, fresh = [], close_status = 0\<rparr>)"
    by (simp add: scripted_defs)
  have r: "mdb_env_create scripted_lmdb 7 (start [13])
             = (13, 7, \<lparr>script = [], calls = 1, fresh = [], close_status = 0\<rparr>)"
    by (simp add: scripted_defs)
  have z: "MDB_SUCCESS scripted_lmdb = 0"
    by (simp add: scripted_lmdb_def)
  from c have "env_create scripted_lmdb 7 (start [13])
     = (raise scripted_lmdb ''mdb_env_create'' 13, 7,
        \<lparr>script = [], calls = 1, fresh = [], close_status = 0\<rparr>)"
    unfolding r z by (cases "env_create scripted_lmdb 7 (start [13])") simp
  with a b show ?thesis unfolding p q r z by (simp add: raise_def)
qed

text \<open>
  Claim C3. \<open>env_close\<close> never raises: for every engine, every handle and every state it
  forwards to the close primitive and returns normally, also on a handle whose
  \<open>env_open\<close> has just failed and on the handle \<open>env_create\<close> has just left in the slot.
  The primitive returns nothing, and nothing it leaves in the engine state is looked at.
\<close>

theorem env_close_never_raises:
  "fst (env_close L env s) = Inr () \<and>
   snd (env_close L env s) = mdb_env_close L env s \<and>
   fst (env_close L env (snd (env_open L env path flags m s))) = Inr () \<and>
   (case env_create L slot s of (r, env', s') \<Rightarrow> fst (env_close L env' s') = Inr ())"
  by (simp add: env_close_def split: prod.splits)

theorem env_close_never_raises_witness:
  "isl (fst (env_open scripted_lmdb 1 ''/db'' 0 420 (start [2, 16]))) \<and>
   fst (env_close scripted_lmdb 1 (snd (env_open scripted_lmdb 1 ''/db'' 0 420 (start [2, 16]))))
     = Inr () \<and>
   close_status (mdb_env_close scripted_lmdb 1
     (snd (env_open scripted_lmdb 1 ''/db'' 0 420 (start [2, 16])))) = 16"
proof -
  have "isl (fst (env_open scripted_lmdb 1 ''/db'' 0 420 (start [2, 16])))"
    by (simp add: env_open_def raise_def scripted_defs)
  moreover have "close_status (mdb_env_close scripted_lmdb 1
      (snd (env_open scripted_lmdb 1 ''/db'' 0 420 (start [2, 16])))) = 16"
    by (simp add: env_open_def raise_def scripted_defs)
  ultimately show ?thesis
    using env_close_never_raises [of scripted_lmdb 1 "start [2, 16]" "''/db''" 0 420]
    by blast
qed

text \<open>
  Claim C7. Whatever one of the seven procedures throws has as \<^verbatim>\<open>origin()\<close> the name of
  its primitive: \<^verbatim>\<open>mdb_env_create\<close>, \<^verbatim>\<open>mdb_env_open\<close>, \<^verbatim>\<open>mdb_env_set_flags\<close>,
  \<^verbatim>\<open>mdb_env_set_mapsize\<close>, \<^verbatim>\<open>mdb_env_set_maxreaders\<close>, \<^verbatim>\<open>mdb_env_set_maxdbs\<close>,
  \<^verbatim>\<open>mdb_env_sync\<close>. \<open>env_close\<close> throws nothing.
\<close>

theorem origins_are_primitive_names:
  "(fst (env_create L slot s) = Inl e \<longrightarrow> origin e = ''mdb_env_create'') \<and>
   (fst (env_open L env path flags m s) = Inl e \<longrightarrow> origin e = ''mdb_env_open'') \<and>
   (fst (env_set_flags L env flags onoff s) = Inl e \<longrightarrow> origin e = ''mdb_env_set_flags'') \<and>
   (fst (env_set_map_size L env sz s) = Inl e \<longrightarrow> origin e = ''mdb_env_set_mapsize'') \<and>
   (fst (env_set_max_readers L env n s) = Inl e \<longrightarrow> origin e = ''mdb_env_set_maxreaders'') \<and>
   (fst (env_set_max_dbs L env n s) = Inl e \<longrightarrow> origin e = ''mdb_env_set_maxdbs'') \<and>
   (fst (env_sync L env force s) = Inl e \<longrightarrow> origin e = ''mdb_env_sync'') \<and>
   fst (env_close L env s) \<noteq> Inl e"
proof -
  have "fst (env_create L slot s) = Inl e \<longrightarrow> origin e = ''mdb_env_create''"
  proof
    assume a: "fst (env_create L slot s) = Inl e"
    obtain rc slot' s' where p: "mdb_env_create L slot s = (rc, slot', s')"
      by (cases "mdb_env_create L slot s")
    from env_create_checked [OF p] obtain r where
      r: "env_create L slot s = (r, slot', s')"
      and k: "checked_call L ''mdb_env_create'' (rc, s') (r, s')"
      by blast
    from a r have "fst (r, s') = Inl e" by simp
    from checked_call_origin [OF k this] show "origin e = ''mdb_env_create''" by simp
  qed
  moreover have "fst (env_close L env s) \<noteq> Inl e"
    by (simp add: env_close_def)
  ultimately show ?thesis
    using checked_call_origin [OF env_open_checked, of L env path flags m s e]
      checked_call_origin [OF env_set_flags_checked, of L env flags onoff s e]
      checked_call_origin [OF env_set_map_size_checked, of L env sz s e]
      checked_call_origin [OF env_set_max_readers_checked, of L env n s e]
      checked_call_origin [OF env_set_max_dbs_checked, of L env n s e]
      checked_call_origin [OF env_sync_checked, of L env force s e]
    by blast
qed

theorem origins_are_primitive_names_witness:
  "fst (env_create scripted_lmdb 0 (start [12])) = Inl (construct Error ''mdb_env_create'' 12) \<and>
   origin (construct Error ''mdb_env_create'' 12) = ''mdb_env_create'' \<and>
   fst (env_open scripted_lmdb 1 ''/db'' 0 420 (start [2])) = Inl (construct Error ''mdb_env_open'' 2) \<and>
   origin (construct Error ''mdb_env_open'' 2) = ''mdb_env_open'' \<and>
   fst (env_set_flags scripted_lmdb 1 65536 True (start [22]))
     = Inl (construct Error ''mdb_env_set_flags'' 22) \<and>
   origin (construct Error ''mdb_env_set_flags'' 22) = ''mdb_env_set_flags'' \<and>
   fst (env_set_map_size scripted_lmdb 1 1048576 (start [22]))
     = Inl (construct Error ''mdb_env_set_mapsize'' 22) \<and>
   origin (construct Error ''mdb_env_set_mapsize'' 22) = ''mdb_env_set_mapsize'' \<and>
   fst (env_set_max_readers scripted_lmdb 1 126 (start [22]))
     = Inl (construct Error ''mdb_env_set_maxreaders'' 22) \<and>
   origin (construct Error ''mdb_env_set_maxreaders'' 22) = ''mdb_env_set_maxreaders'' \<and>
   fst (env_set_max_dbs scripted_lmdb 1 4 (start [22]))
     = Inl (construct Error ''mdb_env_set_maxdbs'' 22) \<and>
   origin (construct Error ''mdb_env_set_maxdbs'' 22) = ''mdb_env_set_maxdbs'' \<and>
   fst (env_sync scripted_lmdb 1 True (start [5])) = Inl (construct Error ''mdb_env_sync'' 5) \<and>
   origin (construct Error ''mdb_env_sync'' 5) = ''mdb_env_sync''"
proof -
  have h1: "fst (env_create scripted_lmdb 0 (start [12])) = Inl (construct Error ''mdb_env_create'' 12)"
    by (simp add: env_create_def raise_def scripted_defs)
  have h2: "fst (env_open scripted_lmdb 1 ''/db'' 0 420 (start [2])) = Inl (construct Error ''mdb_env_open'' 2)"
    by (simp add: env_open_def raise_def scripted_defs)
  have h3: "fst (env_set_flags scripted_lmdb 1 65536 True (start [22]))
     = Inl (construct Error ''mdb_env_set_flags'' 22)"
    by (simp add: env_set_flags_def raise_def scripted_defs)
  have h4: "fst (env_set_map_size scripted_lmdb 1 1048576 (start [22]))
     = Inl (construct Error ''mdb_env_set_mapsize'' 22)"
    by (simp add: env_set_map_size_def raise_def scripted_defs)
  have h5: "fst (env_set_max_readers scripted_lmdb 1 126 (start [22]))
     = Inl (construct Error ''mdb_env_set_maxreaders'' 22)"
    by (simp add: env_set_max_readers_def raise_def scripted_defs)
  have h6: "fst (env_set_max_dbs scripted_lmdb 1 4 (start [22]))
     = Inl (construct Error ''mdb_env_set_maxdbs'' 22)"
    by (simp add: env_set_max_dbs_def raise_def scripted_defs)
  have h7: "fst (env_sync scripted_lmdb 1 True (start [5])) = Inl (construct Error ''mdb_env_sync'' 5)"
    by (simp add: env_sync_def raise_def scripted_defs)
  note c1 = origins_are_primitive_names [THEN conjunct1, THEN mp, OF h1]
  note c2 = origins_are_primitive_names [THEN conjunct2, THEN conjunct1, THEN mp, OF h2]
  note c3 = origins_are_primitive_names [THEN conjunct2, THEN conjunct2, THEN conjunct1, THEN mp, OF h3]
  note c4 = origins_are_primitive_names [THEN conjunct2, THEN conjunct2, THEN conjunct2,
      THEN conjunct1, THEN mp, OF h4]
  note c5 = origins_are_primitive_names [THEN conjunct2, THEN conjunct2, THEN conjunct2,
      THEN conjunct2, THEN conjunct1, THEN mp, OF h5]
  note c6 = origins_are_primitive_names [THEN conjunct2, THEN conjunct2, THEN conjunct2,
      THEN conjunct2, THEN conjunct2, THEN conjunct1, THEN mp, OF h6]
  note c7 = origins_are_primitive_names [THEN conjunct2, THEN conjunct2, THEN conjunct2,
      THEN conjunct2, THEN conjunct2, THEN conjunct2, THEN conjunct1, THEN mp, OF h7]
  from h1 c1 h2 c2 h3 c3 h4 c4 h5 c5 h6 c6 h7 c7 show ?thesis
    by (intro conjI)
qed

text \<open>
  Claim C8. Against an engine whose creation primitive keeps \<open>create_contract\<close>: when
  \<open>env_create\<close> raises, the caller's slot holds what it held before the call; when it
  returns normally, the slot holds a valid, unopened handle.
\<close>

theorem env_create_slot:
  assumes "create_contract L unopened"
  shows "case env_create L slot s of (r, slot', s') \<Rightarrow>
           (isl r \<longrightarrow> slot' = slot) \<and> (\<not> isl r \<longrightarrow> unopened s' slot')"
proof -
  obtain rc slot' s' where p: "mdb_env_create L slot s = (rc, slot', s')"
    by (cases "mdb_env_create L slot s")
  from assms have "case mdb_env_create L slot s of (rc, slot', s') \<Rightarrow>
      if rc = MDB_SUCCESS L then unopened s' slot' else slot' = slot"
    unfolding create_contract_def by (rule allE) (erule allE)
  with p have c: "if rc = MDB_SUCCESS L then unopened s' slot' else slot' = slot"
    by simp
  from env_create_checked [OF p] obtain r where
    r: "env_create L slot s = (r, slot', s')" and k: "checked_call L ''mdb_env_create'' (rc, s') (r, s')"
    by blast
  from k have "isl r \<longleftrightarrow> rc \<noteq> MDB_SUCCESS L" by (simp add: checked_call_def)
  with c r show ?thesis by (auto split: if_splits)
qed

theorem env_create_slot_witness:
  "create_contract scripted_lmdb is_fresh \<and>
   isl (fst (env_create scripted_lmdb 7 (start [12]))) \<and>
   fst (snd (env_create scripted_lmdb 7 (start [12]))) = 7 \<and>
   \<not> isl (fst (env_create scripted_lmdb 7 (start []))) \<and>
   is_fresh (snd (snd (env_create scripted_lmdb 7 (start []))))
     (fst (snd (env_create scripted_lmdb 7 (start []))))"
proof -
  have f: "isl (fst (env_create scripted_lmdb 7 (start [12])))"
    by (simp add: env_create_def raise_def scripted_defs)
  have g: "\<not> isl (fst (env_create scripted_lmdb 7 (start [])))"
    by (simp add: env_create_def raise_def scripted_defs)
  from env_create_slot [OF scripted_create_contract, of 7 "start [12]"] f
  have "fst (snd (env_create scripted_lmdb 7 (start [12]))) = 7"
    by (simp split: prod.splits)
  moreover from env_create_slot [OF scripted_create_contract, of 7 "start []"] g
  have "is_fresh (snd (snd (env_create scripted_lmdb 7 (start []))))
     (fst (snd (env_create scripted_lmdb 7 (start []))))"
    by (simp split: prod.splits)
  ultimately show ?thesis using f g scripted_create_contract by blast
qed

end
